theory Spec2Isabelle
  imports Main "HOL-Library.Word"
begin

unbundle bit_operations_syntax

section \<open>Data model of \<open>gtplanner/costmap2d.h\<close>\<close>

text \<open>
  A C++ \<open>double\<close> is carried as its IEEE-754 binary64 bit pattern. The program never
  computes with a weight, it only copies it, so equality of two patterns is bit identity.
  The two literals of the test are \<open>2.0\<close> and \<open>1.0\<close>.
\<close>

type_synonym double = "64 word"

definition d2_0 :: double where
  "d2_0 = 0x4000000000000000"

definition d1_0 :: double where
  "d1_0 = 0x3FF0000000000000"

text \<open>
  The comparison \<open>==\<close> of two doubles, which \<open>EXPECT_EQ\<close> applies: a NaN (exponent all
  ones, fraction not zero) equals nothing, the two zeros are equal, and any other
  two values are equal exactly when their patterns are.
\<close>

definition isnan :: "double \<Rightarrow> bool" where
  "isnan x = (drop_bit 52 x AND 0x7FF = 0x7FF \<and> x AND 0xFFFFFFFFFFFFF \<noteq> 0)"

definition double_eq :: "double \<Rightarrow> double \<Rightarrow> bool" where
  "double_eq x y =
     (if isnan x \<or> isnan y then False
      else if x AND 0x7FFFFFFFFFFFFFFF = 0 \<and> y AND 0x7FFFFFFFFFFFFFFF = 0 then True
      else x = y)"

text \<open>
  \<open>gtplanner::CostWeightsConfig\<close> is generated code that is not part of the sources; the
  callback reads two of its fields, \<open>cfg.obstacle_weight\<close> and \<open>cfg.inflation_weight\<close>.
\<close>

record CostWeightsConfig =
  obstacle_weight :: double
  inflation_weight :: double

text \<open>
  The class \<open>Costmap2D\<close>. A name cannot end in an underscore here, so the members
  \<open>mtx_\<close>, \<open>current_weights_\<close> and \<open>reconfig_srv_\<close> are the fields \<open>mtx\<close>,
  \<open>current_weights\<close> and \<open>reconfig_srv\<close>. The mutex is its one bit of state: held or
  free. A \<open>std::vector<double>\<close> is a list.
\<close>

record Costmap2D =
  mtx :: bool
  current_weights :: "double list"

text \<open>
  With \<open>GTPLANNER_HAS_DYNAMIC_RECONFIGURE\<close> defined the class has one more member, the
  server \<open>reconfig_srv_\<close>. The server class belongs to the \<open>dynamic_reconfigure\<close>
  library, which is not part of the sources. What the program uses of it: the server
  holds its current configuration, and a callback can be registered with it.
\<close>

record Server =
  callback_set :: bool
  config :: CostWeightsConfig

record Costmap2D_reconf = Costmap2D +
  reconfig_srv :: Server

section \<open>The operations of \<open>costmap2d.cpp\<close>\<close>

text \<open>
  \<open>std::lock_guard<std::mutex> lock(mtx_)\<close> acquires the mutex and releases it when
  the scope is left. A call that finds the mutex held does not return as long as it is
  held; in a run of one thread that is forever, the value \<open>None\<close>.
\<close>

definition lock :: "'a Costmap2D_scheme \<Rightarrow> 'a Costmap2D_scheme option" where
  "lock c = (if mtx c then None else Some (c\<lparr>mtx := True\<rparr>))"

definition unlock :: "'a Costmap2D_scheme \<Rightarrow> 'a Costmap2D_scheme" where
  "unlock c = c\<lparr>mtx := False\<rparr>"

text \<open>
  \<open>Costmap2D::updateWeights\<close>: lock, assign the whole vector, unlock. The same text is
  compiled in both variants of the class, hence the record scheme.
\<close>

definition updateWeights ::
  "double list \<Rightarrow> 'a Costmap2D_scheme \<Rightarrow> 'a Costmap2D_scheme option" where
  "updateWeights w c =
     (case lock c of
        None \<Rightarrow> None
      | Some c1 \<Rightarrow> Some (unlock (c1\<lparr>current_weights := w\<rparr>)))"

text \<open>
  The constructor without reconfiguration support has an empty body: the mutex and the
  vector are default-constructed, that is free and empty.
\<close>

definition Costmap2D_ctor :: Costmap2D where
  "Costmap2D_ctor = \<lparr>mtx = False, current_weights = []\<rparr>"

text \<open>
  \<open>Costmap2D::reconfigCB\<close>: the second argument (\<open>uint32_t\<close>, unnamed) is ignored.
\<close>

definition reconfigCB ::
  "CostWeightsConfig \<Rightarrow> 32 word \<Rightarrow> Costmap2D_reconf \<Rightarrow> Costmap2D_reconf option" where
  "reconfigCB cfg level c = updateWeights [obstacle_weight cfg, inflation_weight cfg] c"

text \<open>
  \<open>reconfig_srv_.setCallback(boost::bind(&Costmap2D::reconfigCB, this, _1, _2))\<close>.
  \<open>dynamic_reconfigure::Server::setCallback\<close> is library code: it stores the callback
  and calls it at once with the server's current configuration and the level \<open>~0\<close>
  (all bits set). The callback bound here is \<open>reconfigCB\<close> of the object itself.
\<close>

definition setCallback :: "Costmap2D_reconf \<Rightarrow> Costmap2D_reconf option" where
  "setCallback c =
     reconfigCB (config (reconfig_srv c)) (- 1)
       (c\<lparr>reconfig_srv := (reconfig_srv c)\<lparr>callback_set := True\<rparr>\<rparr>)"

text \<open>
  With reconfiguration support the members are default-constructed as before and the
  body of the constructor registers the callback. The configuration \<open>cfg0\<close> that the
  server holds when it is constructed comes from the generated defaults, which are not
  part of the sources: it is a parameter.
\<close>

definition Costmap2D_reconf_ctor :: "CostWeightsConfig \<Rightarrow> Costmap2D_reconf option" where
  "Costmap2D_reconf_ctor cfg0 =
     setCallback
       \<lparr>mtx = False, current_weights = [],
        reconfig_srv = \<lparr>callback_set = False, config = cfg0\<rparr>\<rparr>"

text \<open>
  The assignment \<open>current_weights_ = w\<close> copies \<open>w\<close> and may have to ask the allocator
  for storage. When the allocator refuses, the assignment throws \<open>std::bad_alloc\<close>;
  \<open>updateWeights\<close> has no handler and is not \<open>noexcept\<close>, so the exception leaves the
  function and reaches the caller. The definition below is \<open>updateWeights\<close> with the
  allocator's answer as a parameter: \<open>mem\<close> is false when the assignment asks for
  storage and is refused. The value \<open>Inl\<close> is the exception that reaches the caller.
\<close>

datatype error = bad_alloc

definition updateWeights_alloc ::
  "bool \<Rightarrow> double list \<Rightarrow> 'a Costmap2D_scheme \<Rightarrow> (error + 'a Costmap2D_scheme) option" where
  "updateWeights_alloc mem w c =
     (case lock c of
        None \<Rightarrow> None
      | Some c1 \<Rightarrow>
          (if mem then Some (Inr (unlock (c1\<lparr>current_weights := w\<rparr>)))
           else Some (Inl bad_alloc)))"

section \<open>Runs\<close>

text \<open>A sequence of \<open>updateWeights\<close> calls, one after the other, on either variant.\<close>

fun run_updates ::
  "double list list \<Rightarrow> 'a Costmap2D_scheme \<Rightarrow> 'a Costmap2D_scheme option" where
  "run_updates [] c = Some c"
| "run_updates (w # ws) c =
     (case updateWeights w c of None \<Rightarrow> None | Some c' \<Rightarrow> run_updates ws c')"

text \<open>
  The same on the variant with reconfiguration support: construct the object, then make
  the calls.
\<close>

definition run_reconf :: "CostWeightsConfig \<Rightarrow> double list list \<Rightarrow> Costmap2D_reconf option" where
  "run_reconf cfg0 ws =
     (case Costmap2D_reconf_ctor cfg0 of None \<Rightarrow> None | Some c \<Rightarrow> run_updates ws c)"

text \<open>
  The values of the member that can be read in the course of a sequence of calls: the
  one before the first call and the one after each call that returns.
\<close>

fun snapshots :: "double list list \<Rightarrow> 'a Costmap2D_scheme \<Rightarrow> double list list" where
  "snapshots [] c = [current_weights c]"
| "snapshots (w # ws) c =
     current_weights c #
     (case updateWeights w c of None \<Rightarrow> [] | Some c' \<Rightarrow> snapshots ws c')"

section \<open>The test \<open>CostmapFixture.DynamicWeightUpdate\<close>\<close>

text \<open>
  \<open>operator[]\<close> of a vector: an index out of range is undefined behaviour, here no
  result.
\<close>

definition vector_at :: "'a list \<Rightarrow> nat \<Rightarrow> 'a option" where
  "vector_at xs i = (if i < length xs then Some (xs ! i) else None)"

text \<open>
  The test constructs a cell, writes \<open>{2.0, 1.0}\<close> and compares element 0 of the member
  with \<open>2.0\<close>. Its value is whether the expectation holds.
\<close>

definition DynamicWeightUpdate :: "bool option" where
  "DynamicWeightUpdate =
     (case updateWeights [d2_0, d1_0] Costmap2D_ctor of
        None \<Rightarrow> None
      | Some cm \<Rightarrow>
          (case vector_at (current_weights cm) 0 of
             None \<Rightarrow> None
           | Some x \<Rightarrow> Some (double_eq x d2_0)))"

section \<open>Basic facts\<close>

lemma updateWeights_free:
  "\<not> mtx c \<Longrightarrow> updateWeights w c = Some (c\<lparr>current_weights := w\<rparr>)"
  by (simp add: updateWeights_def lock_def unlock_def)

lemma updateWeights_held: "mtx c \<Longrightarrow> updateWeights w c = None"
  by (simp add: updateWeights_def lock_def)

lemma run_updates_snoc:
  "run_updates (ws @ [w]) c =
     (case run_updates ws c of None \<Rightarrow> None | Some c' \<Rightarrow> updateWeights w c')"
  by (induction ws arbitrary: c) (simp_all split: option.splits)

lemma run_updates_free:
  "\<not> mtx c \<Longrightarrow>
   run_updates ws c = Some (c\<lparr>current_weights := last (current_weights c # ws)\<rparr>)"
proof (induction ws arbitrary: c)
  case Nil
  then show ?case by simp
next
  case (Cons w ws)
  have "\<not> mtx (c\<lparr>current_weights := w\<rparr>)"
    using Cons.prems by simp
  from Cons.IH [OF this] show ?case
    using Cons.prems by (simp add: updateWeights_free)
qed

lemma Costmap2D_ctor_free: "\<not> mtx Costmap2D_ctor"
  by (simp add: Costmap2D_ctor_def)

lemma Costmap2D_reconf_ctor_eq:
  "Costmap2D_reconf_ctor cfg0 =
     Some \<lparr>mtx = False,
           current_weights = [obstacle_weight cfg0, inflation_weight cfg0],
           reconfig_srv = \<lparr>callback_set = True, config = cfg0\<rparr>\<rparr>"
  by (simp add: Costmap2D_reconf_ctor_def setCallback_def reconfigCB_def updateWeights_free)

lemma snapshots_Cons_free:
  "\<not> mtx c \<Longrightarrow>
   snapshots (w # ws) c = current_weights c # snapshots ws (c\<lparr>current_weights := w\<rparr>)"
  by (simp add: updateWeights_free)

lemma snapshots_free:
  "\<not> mtx c \<Longrightarrow>
   length (snapshots ws c) = Suc (length ws) \<and>
   set (snapshots ws c) = insert (current_weights c) (set ws)"
proof (induction ws arbitrary: c)
  case Nil
  then show ?case by simp
next
  case (Cons w ws)
  let ?c = "c\<lparr>current_weights := w\<rparr>"
  have free: "\<not> mtx ?c"
    using Cons.prems by simp
  have len: "length (snapshots ws ?c) = Suc (length ws)"
    and elems: "set (snapshots ws ?c) = insert w (set ws)"
    using Cons.IH [OF free] by simp_all
  have unfold: "snapshots (w # ws) c = current_weights c # snapshots ws ?c"
    using Cons.prems by (rule snapshots_Cons_free)
  have "length (snapshots (w # ws) c) = Suc (length (w # ws))"
    by (simp only: unfold len list.size length_Cons)
  moreover have "set (snapshots (w # ws) c) = insert (current_weights c) (set (w # ws))"
    by (simp only: unfold elems list.set)
  ultimately show ?case by (rule conjI)
qed

text \<open>
  \<open>updateWeights\<close> commutes with forgetting the server member: the two variants of
  the class move in lockstep.
\<close>

lemma truncate_updateWeights:
  "map_option Costmap2D.truncate (updateWeights w c) = updateWeights w (Costmap2D.truncate c)"
  by (cases "mtx c")
     (simp_all add: updateWeights_free updateWeights_held Costmap2D.truncate_def)

lemma truncate_run_updates:
  "map_option Costmap2D.truncate (run_updates ws c) = run_updates ws (Costmap2D.truncate c)"
proof (induction ws arbitrary: c)
  case Nil
  show ?case by simp
next
  case (Cons w ws)
  show ?case
  proof (cases "updateWeights w c")
    case None
    then have "updateWeights w (Costmap2D.truncate c) = None"
      using truncate_updateWeights [of w c] by simp
    with None show ?thesis by simp
  next
    case (Some c')
    then have "updateWeights w (Costmap2D.truncate c) = Some (Costmap2D.truncate c')"
      using truncate_updateWeights [of w c] by simp
    with Some Cons.IH [of c'] show ?thesis by simp
  qed
qed

text \<open>
  With storage granted, \<open>updateWeights_alloc\<close> is \<open>updateWeights\<close>.
\<close>

lemma updateWeights_alloc_granted:
  "updateWeights_alloc True w c = map_option Inr (updateWeights w c)"
  by (simp add: updateWeights_alloc_def updateWeights_def split: option.splits)

lemma updateWeights_alloc_free:
  "\<not> mtx c \<Longrightarrow>
   updateWeights_alloc mem w c =
     Some (if mem then Inr (c\<lparr>current_weights := w\<rparr>) else Inl bad_alloc)"
  by (simp add: updateWeights_alloc_def lock_def unlock_def)

lemma run_reconf_eq:
  "run_reconf cfg0 ws =
     Some \<lparr>mtx = False,
           current_weights = last ([obstacle_weight cfg0, inflation_weight cfg0] # ws),
           reconfig_srv = \<lparr>callback_set = True, config = cfg0\<rparr>\<rparr>"
  by (simp add: run_reconf_def Costmap2D_reconf_ctor_eq run_updates_free)

lemma run_plain_eq:
  "run_updates ws Costmap2D_ctor = Some \<lparr>mtx = False, current_weights = last ([] # ws)\<rparr>"
  using run_updates_free [OF Costmap2D_ctor_free, of ws]
  by (simp add: Costmap2D_ctor_def)

lemma DynamicWeightUpdate_passes: "DynamicWeightUpdate = Some True"
  by (simp add: DynamicWeightUpdate_def Costmap2D_ctor_def updateWeights_free vector_at_def
      double_eq_def isnan_def d2_0_def d1_0_def)

section \<open>The claims\<close>

text \<open>
  C1. In every sequence of \<open>updateWeights\<close> calls on a freshly constructed cell, each
  call returns, and every value of the stored weight sequence that can be read, before
  the first call or after any call, is either the initial value of the member (the empty
  vector) or one of the vectors passed to a call, whole: it is never assembled from
  parts of two arguments.
\<close>

theorem stored_weights_whole:
  "length (snapshots ws Costmap2D_ctor) = Suc (length ws) \<and>
   (\<forall>v \<in> set (snapshots ws Costmap2D_ctor). v = [] \<or> v \<in> set ws)"
  using snapshots_free [OF Costmap2D_ctor_free, of ws]
  by (simp add: Costmap2D_ctor_def)

text \<open>
  The witness writes \<open>{2.0, 1.0}\<close> and then \<open>{1.0}\<close>: three values can be read, the
  empty vector and the two arguments.
\<close>

theorem stored_weights_whole_witness:
  "length (snapshots [[d2_0, d1_0], [d1_0]] Costmap2D_ctor) = 3 \<and>
   snapshots [[d2_0, d1_0], [d1_0]] Costmap2D_ctor = [[], [d2_0, d1_0], [d1_0]] \<and>
   [d2_0, d1_0] \<in> set [[d2_0, d1_0], [d1_0]] \<and> [d1_0] \<in> set [[d2_0, d1_0], [d1_0]]"
  using stored_weights_whole [of "[[d2_0, d1_0], [d1_0]]"]
  by (simp add: updateWeights_free Costmap2D_ctor_def)

text \<open>
  C2. After \<open>updateWeights(w)\<close> returns, whatever calls came before it, the stored
  sequence is \<open>w\<close>, bit for bit, and it stays so until the next call since nothing else
  assigns the member. In particular, writing \<open>{2.0, 1.0}\<close> to a fresh cell leaves
  exactly \<open>{2.0, 1.0}\<close>, and the expectation of the test \<open>DynamicWeightUpdate\<close> holds.
\<close>

theorem write_then_read:
  "(\<exists>c'. run_updates (ws @ [w]) Costmap2D_ctor = Some c' \<and> current_weights c' = w) \<and>
   (\<exists>cm. updateWeights [d2_0, d1_0] Costmap2D_ctor = Some cm \<and>
         current_weights cm = [d2_0, d1_0]) \<and>
   DynamicWeightUpdate = Some True"
  by (simp add: run_updates_free [OF Costmap2D_ctor_free]
      updateWeights_free [OF Costmap2D_ctor_free] DynamicWeightUpdate_passes)

text \<open>
  C3, as stated: a freshly constructed cell holds the default \<open>{1.0, 1.0}\<close>. In the
  variant without reconfiguration support it does not: the constructor assigns nothing
  to the member.
\<close>

theorem fresh_cell_default_counterexample:
  "current_weights Costmap2D_ctor \<noteq> [d1_0, d1_0]"
  by (simp add: Costmap2D_ctor_def)

text \<open>
  C3, amended. A freshly constructed \<open>Costmap2D\<close> of the variant without
  reconfiguration support holds the empty weight sequence, with no element 0 to read.
  Of the variant with reconfiguration support it holds the two weights of the server's
  configuration, \<open>{obstacle_weight, inflation_weight}\<close>, which the callback made at
  registration has installed; that is \<open>{1.0, 1.0}\<close> when the server's two values are
  \<open>1.0\<close>.
\<close>

theorem fresh_cell_weights:
  "current_weights Costmap2D_ctor = [] \<and>
   vector_at (current_weights Costmap2D_ctor) 0 = None \<and>
   map_option current_weights (Costmap2D_reconf_ctor cfg0) =
     Some [obstacle_weight cfg0, inflation_weight cfg0] \<and>
   map_option current_weights
       (Costmap2D_reconf_ctor \<lparr>obstacle_weight = d1_0, inflation_weight = d1_0\<rparr>) =
     Some [d1_0, d1_0]"
  by (simp add: Costmap2D_ctor_def Costmap2D_reconf_ctor_eq vector_at_def)

text \<open>
  C5. For every configuration \<open>cfg\<close> (and every value of the ignored second argument),
  \<open>reconfigCB\<close> passes the two-element vector \<open>{cfg.obstacle_weight,
  cfg.inflation_weight}\<close>, in that order, to \<open>updateWeights\<close>; called on a cell
  whose mutex is free it returns, and the cell differs from the one before in the stored
  weight sequence only.
\<close>

theorem reconfigCB_installs_pair:
  "\<not> mtx c \<Longrightarrow>
   reconfigCB cfg level c = updateWeights [obstacle_weight cfg, inflation_weight cfg] c \<and>
   reconfigCB cfg level c =
     Some (c\<lparr>current_weights := [obstacle_weight cfg, inflation_weight cfg]\<rparr>)"
  by (simp add: reconfigCB_def updateWeights_free)

text \<open>
  The witness is the state in which registration makes the first callback: nothing
  stored yet, the callback set, the mutex free.
\<close>

theorem reconfigCB_installs_pair_witness:
  "\<not> mtx \<lparr>mtx = False, current_weights = [],
           reconfig_srv = \<lparr>callback_set = True,
             config = \<lparr>obstacle_weight = d2_0, inflation_weight = d1_0\<rparr>\<rparr>\<rparr> \<and>
   reconfigCB \<lparr>obstacle_weight = d2_0, inflation_weight = d1_0\<rparr> (- 1)
       \<lparr>mtx = False, current_weights = [],
        reconfig_srv = \<lparr>callback_set = True,
          config = \<lparr>obstacle_weight = d2_0, inflation_weight = d1_0\<rparr>\<rparr>\<rparr> =
     Some \<lparr>mtx = False, current_weights = [d2_0, d1_0],
           reconfig_srv = \<lparr>callback_set = True,
             config = \<lparr>obstacle_weight = d2_0, inflation_weight = d1_0\<rparr>\<rparr>\<rparr>"
proof -
  let ?cfg = "\<lparr>obstacle_weight = d2_0, inflation_weight = d1_0\<rparr>"
  let ?c = "\<lparr>mtx = False, current_weights = [],
             reconfig_srv = \<lparr>callback_set = True, config = ?cfg\<rparr>\<rparr>"
  have free: "\<not> mtx ?c" by simp
  have "reconfigCB ?cfg (- 1) ?c =
          Some (?c\<lparr>current_weights := [obstacle_weight ?cfg, inflation_weight ?cfg]\<rparr>)"
    by (rule reconfigCB_installs_pair [OF free, of ?cfg "- 1", THEN conjunct2])
  then show ?thesis by simp
qed

text \<open>
  C6. Last write wins: when \<open>updateWeights(A)\<close> and then \<open>updateWeights(B)\<close> are the
  last two calls of a sequence, the stored sequence afterwards is \<open>B\<close>, whatever was
  stored before, and it is not \<open>A\<close> unless \<open>A\<close> and \<open>B\<close> are the same vector.
\<close>

theorem last_write_wins:
  "\<exists>c. run_updates (ws @ [A, B]) Costmap2D_ctor = Some c \<and>
        current_weights c = B \<and> (A \<noteq> B \<longrightarrow> current_weights c \<noteq> A)"
  by (auto simp add: run_updates_free [OF Costmap2D_ctor_free])

theorem last_write_wins_witness:
  "[d2_0, d1_0] \<noteq> [d1_0, d1_0] \<and>
   (\<exists>c. run_updates [[d1_0], [d2_0, d1_0], [d1_0, d1_0]] Costmap2D_ctor = Some c \<and>
        current_weights c = [d1_0, d1_0] \<and> current_weights c \<noteq> [d2_0, d1_0])"
  using last_write_wins [of "[[d1_0]]" "[d2_0, d1_0]" "[d1_0, d1_0]"]
  by (simp add: d2_0_def d1_0_def)

text \<open>
  C7, as stated: for every sequence of \<open>updateWeights\<close> calls the two variants reach
  equal cell states. For the empty sequence they do not: the variant with
  reconfiguration support has already received the callback of registration and holds
  two weights, the other holds none.
\<close>

theorem reconfigure_variants_counterexample:
  "map_option Costmap2D.truncate
       (run_reconf \<lparr>obstacle_weight = d1_0, inflation_weight = d1_0\<rparr> []) \<noteq>
     run_updates [] Costmap2D_ctor"
  by (simp add: run_reconf_eq Costmap2D_ctor_def Costmap2D.truncate_def)

text \<open>
  C7, amended. For every sequence of at least one \<open>updateWeights\<close> call on freshly
  constructed objects, both variants return from every call and the mutex and the stored
  weights of the variant with the server equal the state of the variant without it,
  whatever configuration the server holds. Before the first call the variant with the
  server holds the two weights of that configuration.
\<close>

theorem reconfigure_variants_agree:
  "(ws \<noteq> [] \<longrightarrow>
      map_option Costmap2D.truncate (run_reconf cfg0 ws) = run_updates ws Costmap2D_ctor \<and>
      (\<exists>c. run_updates ws Costmap2D_ctor = Some c)) \<and>
   map_option current_weights (run_reconf cfg0 []) =
     Some [obstacle_weight cfg0, inflation_weight cfg0]"
  by (simp add: run_reconf_eq run_plain_eq Costmap2D.truncate_def)

text \<open>
  The witness: the server holds \<open>{1.0, 1.0}\<close> and one call writes \<open>{2.0, 1.0}\<close>.
\<close>

theorem reconfigure_variants_agree_witness:
  "[[d2_0, d1_0]] \<noteq> [] \<and>
   map_option Costmap2D.truncate
       (run_reconf \<lparr>obstacle_weight = d1_0, inflation_weight = d1_0\<rparr> [[d2_0, d1_0]]) =
     run_updates [[d2_0, d1_0]] Costmap2D_ctor \<and>
   run_updates [[d2_0, d1_0]] Costmap2D_ctor =
     Some \<lparr>mtx = False, current_weights = [d2_0, d1_0]\<rparr>"
  using reconfigure_variants_agree
    [of "[[d2_0, d1_0]]" "\<lparr>obstacle_weight = d1_0, inflation_weight = d1_0\<rparr>"]
  by (simp add: run_plain_eq)

text \<open>
  C8, as stated: \<open>updateWeights\<close> never reports an error, memory exhaustion being fatal.
  When the allocator refuses the storage for the copy of \<open>{2.0, 1.0}\<close> on a fresh cell,
  the call ends with \<open>std::bad_alloc\<close> thrown to its caller.
\<close>

theorem updateWeights_bad_alloc_counterexample:
  "updateWeights_alloc False [d2_0, d1_0] Costmap2D_ctor = Some (Inl bad_alloc)"
  by (simp add: updateWeights_alloc_free [OF Costmap2D_ctor_free])

text \<open>
  C8, amended. \<open>updateWeights\<close> is total on the states the program reaches: after every
  sequence of calls on a fresh cell the mutex is free, and the next call, for every
  argument, ends in one of two ways. When the storage for the copy is granted it returns,
  yielding the new state and no value. When it is refused it throws \<open>std::bad_alloc\<close>
  to its caller: memory exhaustion is the only failure, and it is an exception that the
  caller receives, which nothing in this code makes fatal.
\<close>

theorem updateWeights_total:
  "\<exists>c. run_updates ws Costmap2D_ctor = Some c \<and> \<not> mtx c \<and>
        updateWeights w c = Some (c\<lparr>current_weights := w\<rparr>) \<and>
        updateWeights_alloc True w c = Some (Inr (c\<lparr>current_weights := w\<rparr>)) \<and>
        updateWeights_alloc False w c = Some (Inl bad_alloc)"
  by (simp add: run_plain_eq updateWeights_free updateWeights_alloc_free)

text \<open>
  C10. \<open>updateWeights\<close> validates nothing: for a vector \<open>w\<close> of any length and any
  values, a call on a cell whose mutex is free returns and stores \<open>w\<close> as it is, with
  its length, and leaves the mutex free.
\<close>

theorem updateWeights_no_validation:
  "\<not> mtx c \<Longrightarrow>
   \<exists>c'. updateWeights w c = Some c' \<and> current_weights c' = w \<and>
        length (current_weights c') = length w \<and> mtx c' = mtx c"
  by (simp add: updateWeights_free)

text \<open>
  The witness stores the empty vector, a vector of one NaN, and a vector of three
  elements that starts with \<open>-1000.0\<close>.
\<close>

theorem updateWeights_no_validation_witness:
  "\<not> mtx Costmap2D_ctor \<and>
   (\<exists>c'. updateWeights [] Costmap2D_ctor = Some c' \<and> current_weights c' = []) \<and>
   (\<exists>c'. updateWeights [0x7FF8000000000000] Costmap2D_ctor = Some c' \<and>
         current_weights c' = [0x7FF8000000000000]) \<and>
   (\<exists>c'. updateWeights [0xC08F400000000000, 0, d1_0] Costmap2D_ctor = Some c' \<and>
         current_weights c' = [0xC08F400000000000, 0, d1_0])"
  using updateWeights_no_validation [OF Costmap2D_ctor_free, of "[]"]
    updateWeights_no_validation [OF Costmap2D_ctor_free, of "[0x7FF8000000000000]"]
    updateWeights_no_validation [OF Costmap2D_ctor_free, of "[0xC08F400000000000, 0, d1_0]"]
  by (auto simp add: Costmap2D_ctor_free)

end
